theory Spec2Isabelle
  imports Main "HOL-Library.Word"
begin

unbundle bit_operations_syntax

section \<open>LIN master on an ESP32 HardwareSerial: data model\<close>

text \<open>
  The three step methods of class \<open>LIN_Master_HardwareSerial_ESP32\<close>
  (file \<open>LIN_master_HardwareSerial_ESP32.cpp\<close>) are embedded as functions on an
  explicit object state. The serial port the object points to (\<open>pSerial\<close>) is part
  of that state; each value returned by \<open>micros()\<close> is an argument of the step.
\<close>

type_synonym u8 = "8 word"
type_synonym u16 = "16 word"
type_synonym u32 = "32 word"

text \<open>
  Modelled from the spec: the enumeration \<open>LIN_Master::state_t\<close> is declared in
  \<open>LIN_master.h\<close>, which is not among the sources. The spec gives the transaction
  state as one of IDLE, BREAK, BODY, DONE; the constructor names are the ones the
  step methods use.
\<close>

datatype state_t = STATE_IDLE | STATE_BREAK | STATE_BODY | STATE_DONE

text \<open>
  \<open>LIN_Master::error_t\<close> is a bit mask. The methods cast it to \<open>int\<close>, combine with
  bitwise or, and cast back, so it is a 32-bit word here.
\<close>

type_synonym error_t = "32 word"

text \<open>
  The serial port. \<open>rx\<close> holds the received bytes not yet read, oldest first;
  \<open>baud\<close> is the baud rate in force; \<open>trace\<close> lists the calls with an effect that
  were made on the port, oldest first.
\<close>

datatype serial_call =
    Flush
  | Read u8
  | UpdateBaudRate u32
  | Write "u8 list"
  | ReadBytes "u8 list"

record HardwareSerial =
  rx :: "u8 list"
  baud :: u32
  trace :: "serial_call list"

text \<open>
  The object. The fields \<open>state\<close> to \<open>lenRx\<close> are inherited from \<open>LIN_Master\<close>,
  whose header is not among the sources. Their widths follow the code that uses
  them: the time fields are compared with differences of \<open>micros()\<close> and of the
  32-bit \<open>timeStartBreak\<close>, \<open>begin\<close> takes the baud rate as \<open>uint16_t\<close>, and the
  lengths are byte counts of LIN frames. \<open>bufTx\<close> and \<open>bufRx\<close> are C arrays,
  modelled as lists whose length is the array's capacity. \<open>timeStartBreak\<close> is
  declared in the ESP32 header.
\<close>

record LIN_Master_HardwareSerial_ESP32 =
  state :: state_t
  error :: error_t
  baudrate :: u16
  timePerByte :: u32
  timeMax :: u32
  timeStart :: u32
  bufTx :: "u8 list"
  lenTx :: u8
  bufRx :: "u8 list"
  lenRx :: u8
  timeStartBreak :: u32
  pSerial :: HardwareSerial

text \<open>
  What the step methods use of the base class \<open>LIN_Master\<close> without its definition
  being among the sources: the two error constants and the method \<open>_checkFrame\<close>,
  which inspects the object and returns an error mask. They are parameters.
\<close>

record LIN_Master =
  ERROR_STATE :: error_t
  ERROR_TIMEOUT :: error_t
  checkFrame :: "LIN_Master_HardwareSerial_ESP32 \<Rightarrow> error_t"

text \<open>An access outside a C array has no defined behaviour; the model stops there.\<close>

datatype fault = OutOfBounds

section \<open>The serial port's operations\<close>

definition serial_flush :: "HardwareSerial \<Rightarrow> HardwareSerial" where
  "serial_flush p = p\<lparr>trace := trace p @ [Flush]\<rparr>"

definition serial_available :: "HardwareSerial \<Rightarrow> int" where
  "serial_available p = int (length (rx p))"

text \<open>\<open>read()\<close> returns the oldest pending byte, or \<open>-1\<close> when there is none.\<close>

definition serial_read :: "HardwareSerial \<Rightarrow> int \<times> HardwareSerial" where
  "serial_read p =
     (case rx p of
        [] \<Rightarrow> (- 1, p)
      | b # bs \<Rightarrow> (uint b, p\<lparr>rx := bs, trace := trace p @ [Read b]\<rparr>))"

definition serial_updateBaudRate :: "u32 \<Rightarrow> HardwareSerial \<Rightarrow> HardwareSerial" where
  "serial_updateBaudRate b p = p\<lparr>baud := b, trace := trace p @ [UpdateBaudRate b]\<rparr>"

definition serial_write :: "u8 list \<Rightarrow> HardwareSerial \<Rightarrow> HardwareSerial" where
  "serial_write bs p = p\<lparr>trace := trace p @ [Write bs]\<rparr>"

text \<open>
  \<open>readBytes(buffer, n)\<close>, called with at least \<open>n\<close> bytes pending: it hands over the
  \<open>n\<close> oldest bytes and removes them from the port.
\<close>

definition serial_readBytes :: "nat \<Rightarrow> HardwareSerial \<Rightarrow> u8 list \<times> HardwareSerial" where
  "serial_readBytes n p =
     (take n (rx p), p\<lparr>rx := drop n (rx p), trace := trace p @ [ReadBytes (take n (rx p))]\<rparr>)"

text \<open>The loop \<open>while (pSerial->available()) pSerial->read();\<close> of \<open>_sendBreak\<close>.\<close>

function drain :: "HardwareSerial \<Rightarrow> HardwareSerial" where
  "drain p = (if serial_available p \<noteq> 0 then drain (snd (serial_read p)) else p)"
  by pat_completeness auto
termination
  by (relation "measure (\<lambda>p. length (rx p))")
     (auto simp: serial_available_def serial_read_def split: list.splits)

declare drain.simps [simp del]

section \<open>Array accesses\<close>

text \<open>\<open>buf[i]\<close>.\<close>

definition buf_index :: "u8 list \<Rightarrow> nat \<Rightarrow> fault + u8" where
  "buf_index buf i = (if i < length buf then Inr (buf ! i) else Inl OutOfBounds)"

text \<open>
  The \<open>n\<close> bytes at \<open>buf + off\<close>, where \<open>n\<close> is the \<open>int\<close> the caller computes. A
  negative \<open>n\<close> converts to a \<open>size_t\<close> beyond every array.
\<close>

definition buf_slice :: "u8 list \<Rightarrow> nat \<Rightarrow> int \<Rightarrow> fault + u8 list" where
  "buf_slice buf off n =
     (if 0 \<le> n \<and> off + nat n \<le> length buf then Inr (take (nat n) (drop off buf))
      else Inl OutOfBounds)"

text \<open>Storing \<open>bs\<close> at the start of \<open>buf\<close>.\<close>

definition buf_store :: "u8 list \<Rightarrow> u8 list \<Rightarrow> fault + u8 list" where
  "buf_store buf bs =
     (if length bs \<le> length buf then Inr (bs @ drop (length bs) buf) else Inl OutOfBounds)"

section \<open>The step methods\<close>

text \<open>
  Each method returns the state it reports together with the updated object.
  \<open>sendBreak K now s\<close>: \<open>now\<close> is the value \<open>micros()\<close> returns at line 50.
\<close>

definition sendBreak ::
  "LIN_Master \<Rightarrow> u32 \<Rightarrow> LIN_Master_HardwareSerial_ESP32 \<Rightarrow>
     fault + (state_t \<times> LIN_Master_HardwareSerial_ESP32)" where
  "sendBreak K now s =
     (if state s \<noteq> STATE_IDLE then
        (let s1 = s\<lparr>error := error s OR ERROR_STATE K\<rparr>;
             s2 = s1\<lparr>state := STATE_DONE\<rparr>
         in Inr (state s2, s2))
      else
        (let p1 = serial_flush (pSerial s);
             p2 = drain p1;
             p3 = serial_updateBaudRate (drop_bit 1 (ucast (baudrate s))) p2
         in case buf_index (bufTx s) 0 of
              Inl f \<Rightarrow> Inl f
            | Inr b0 \<Rightarrow>
                (let p4 = serial_write [b0] p3;
                     s1 = s\<lparr>pSerial := p4\<rparr>;
                     s2 = s1\<lparr>timeStartBreak := now\<rparr>;
                     s3 = s2\<lparr>state := STATE_BREAK\<rparr>
                 in Inr (state s3, s3))))"

text \<open>
  \<open>sendFrame K t1 t2 s\<close>: \<open>t1\<close> is the value \<open>micros()\<close> returns at line 83, \<open>t2\<close>
  the one it returns at line 102 (read only when the break is not over).
\<close>

definition sendFrame ::
  "LIN_Master \<Rightarrow> u32 \<Rightarrow> u32 \<Rightarrow> LIN_Master_HardwareSerial_ESP32 \<Rightarrow>
     fault + (state_t \<times> LIN_Master_HardwareSerial_ESP32)" where
  "sendFrame K t1 t2 s =
     (if state s \<noteq> STATE_BREAK then
        (let s1 = s\<lparr>error := error s OR ERROR_STATE K\<rparr>;
             s2 = s1\<lparr>state := STATE_DONE\<rparr>
         in Inr (state s2, s2))
      else if t1 - timeStartBreak s > push_bit 1 (timePerByte s) then
        (let p1 = serial_updateBaudRate (ucast (baudrate s)) (pSerial s)
         in case buf_slice (bufTx s) 1 (uint (lenTx s) - 1) of
              Inl f \<Rightarrow> Inl f
            | Inr bs \<Rightarrow>
                (let p2 = serial_write bs p1;
                     s1 = s\<lparr>pSerial := p2\<rparr>;
                     s2 = s1\<lparr>state := STATE_BODY\<rparr>
                 in Inr (state s2, s2)))
      else
        (let s1 = (if t2 - timeStart s > timeMax s
                   then s\<lparr>error := error s OR ERROR_TIMEOUT K, state := STATE_DONE\<rparr>
                   else s)
         in Inr (state s1, s1)))"

text \<open>
  \<open>receiveFrame K t s\<close>: \<open>t\<close> is the value \<open>micros()\<close> returns at line 155 (read
  only when too few bytes are pending). \<open>_checkFrame\<close> runs on the object as it is
  after \<open>readBytes\<close>.
\<close>

definition receiveFrame ::
  "LIN_Master \<Rightarrow> u32 \<Rightarrow> LIN_Master_HardwareSerial_ESP32 \<Rightarrow>
     fault + (state_t \<times> LIN_Master_HardwareSerial_ESP32)" where
  "receiveFrame K t s =
     (if state s \<noteq> STATE_BODY then
        (let s1 = s\<lparr>error := error s OR ERROR_STATE K\<rparr>;
             s2 = s1\<lparr>state := STATE_DONE\<rparr>
         in Inr (state s2, s2))
      else if serial_available (pSerial s) \<ge> uint (lenRx s) then
        (let (bs, p1) = serial_readBytes (unat (lenRx s)) (pSerial s)
         in case buf_store (bufRx s) bs of
              Inl f \<Rightarrow> Inl f
            | Inr buf \<Rightarrow>
                (let s1 = s\<lparr>pSerial := p1, bufRx := buf\<rparr>;
                     s2 = s1\<lparr>error := error s1 OR checkFrame K s1\<rparr>;
                     s3 = s2\<lparr>state := STATE_DONE\<rparr>
                 in Inr (state s3, s3)))
      else
        (let s1 = (if t - timeStart s > timeMax s
                   then s\<lparr>error := error s OR ERROR_TIMEOUT K, state := STATE_DONE\<rparr>
                   else s)
         in Inr (state s1, s1)))"

text \<open>
  The array bounds the base class keeps: the frame to send fits \<open>bufTx\<close> and has at
  least its break byte, and the bytes to receive fit \<open>bufRx\<close>.
\<close>

definition in_bounds :: "LIN_Master_HardwareSerial_ESP32 \<Rightarrow> bool" where
  "in_bounds s \<longleftrightarrow>
     1 \<le> unat (lenTx s) \<and> unat (lenTx s) \<le> length (bufTx s) \<and>
     unat (lenRx s) \<le> length (bufRx s)"


section \<open>A concrete node, for evaluating the methods\<close>

text \<open>
  An instance of the base-class parameters: two distinct error bits, and a frame
  check that compares the echo of the \<open>lenTx\<close> bytes sent and reports a third bit.
\<close>

definition ex_base :: LIN_Master where
  "ex_base =
     \<lparr>ERROR_STATE = 1, ERROR_TIMEOUT = 4,
      checkFrame = (\<lambda>s. if take (unat (lenTx s)) (bufRx s) = take (unat (lenTx s)) (bufTx s)
                          then 0 else 2)\<rparr>"

text \<open>
  A node at 19200 baud with a three-byte header (break, sync, identifier) to send
  and its echo to receive; two stale bytes are pending on the port.
\<close>

definition ex_node :: LIN_Master_HardwareSerial_ESP32 where
  "ex_node =
     \<lparr>state = STATE_IDLE, error = 0, baudrate = 19200, timePerByte = 520,
      timeMax = 10000, timeStart = 1000,
      bufTx = [0, 85, 80, 0], lenTx = 3,
      bufRx = [0, 0, 0, 0], lenRx = 3,
      timeStartBreak = 0,
      pSerial = \<lparr>rx = [7, 9], baud = 19200, trace = []\<rparr>\<rparr>"

text \<open>The same node after the break was sent at time 1100, nothing received yet.\<close>

definition ex_break :: LIN_Master_HardwareSerial_ESP32 where
  "ex_break =
     ex_node\<lparr>state := STATE_BREAK, timeStartBreak := 1100,
             pSerial := \<lparr>rx = [], baud = 9600, trace = []\<rparr>\<rparr>"

text \<open>The same node after the header was sent, with its echo pending.\<close>

definition ex_body :: LIN_Master_HardwareSerial_ESP32 where
  "ex_body =
     ex_node\<lparr>state := STATE_BODY, timeStartBreak := 1100,
             pSerial := \<lparr>rx = [0, 85, 80], baud = 19200, trace = []\<rparr>\<rparr>"

text \<open>The same node after the header was sent, with one byte of the echo pending.\<close>

definition ex_body_short :: LIN_Master_HardwareSerial_ESP32 where
  "ex_body_short =
     ex_node\<lparr>state := STATE_BODY, timeStartBreak := 1100,
             pSerial := \<lparr>rx = [0], baud = 19200, trace = []\<rparr>\<rparr>"

section \<open>Facts about the port and the arrays\<close>

lemma drain_eq: "drain p = p\<lparr>rx := [], trace := trace p @ map Read (rx p)\<rparr>"
proof (induction p rule: drain.induct)
  case (1 p)
  show ?case
  proof (cases "rx p")
    case Nil
    then show ?thesis
      by (subst drain.simps) (simp add: serial_available_def)
  next
    case (Cons b bs)
    then have "drain p = drain (snd (serial_read p))"
      by (subst drain.simps) (simp add: serial_available_def)
    also have "\<dots> = (snd (serial_read p))\<lparr>rx := [],
        trace := trace (snd (serial_read p)) @ map Read (rx (snd (serial_read p)))\<rparr>"
      using Cons by (intro "1.IH") (simp add: serial_available_def)
    finally show ?thesis
      using Cons by (simp add: serial_read_def)
  qed
qed

lemma uint_le_int: "uint (n :: 'a::len word) \<le> int k \<longleftrightarrow> unat n \<le> k"
  by (metis nat_le_iff unat_eq_nat_uint)

lemma uint_minus_1: "1 \<le> unat (n :: 'a::len word) \<Longrightarrow> uint n - 1 = int (unat n - 1)"
  by (metis int_ops(6) int_ops(2) uint_nat of_nat_1 of_nat_le_iff not_less)

lemma buf_index_0: "buf \<noteq> [] \<Longrightarrow> buf_index buf 0 = Inr (buf ! 0)"
  by (simp add: buf_index_def)

lemma buf_slice_rest:
  assumes "1 \<le> unat n" and "unat n \<le> length buf"
  shows "buf_slice buf (Suc 0) (uint n - 1) = Inr (take (unat n - 1) (drop 1 buf))"
proof -
  have e: "uint n - 1 = int (unat n - 1)"
    using assms(1) by (rule uint_minus_1)
  have a: "0 \<le> uint n - 1"
    unfolding e by simp
  have b: "nat (uint n - 1) = unat n - 1"
    unfolding e by simp
  show ?thesis
    unfolding buf_slice_def using a b assms by simp
qed

lemma buf_store_take:
  "n \<le> length buf \<Longrightarrow> n \<le> length bs \<Longrightarrow>
   buf_store buf (take n bs) = Inr (take n bs @ drop n buf)"
  by (simp add: buf_store_def min_def)

lemma available_ge: "uint n \<le> serial_available p \<longleftrightarrow> unat n \<le> length (rx p)"
  unfolding serial_available_def by (rule uint_le_int)

lemma twice: "push_bit 1 (x :: u32) = x * 2"
  by (simp add: push_bit_eq_mult)

lemma baud_same: "unat (ucast (b :: u16) :: u32) = unat b"
proof -
  have "unat b < 2 ^ 16"
    using unsigned_less [of b] by simp
  then have "unat b < 2 ^ 32"
    by simp
  then show ?thesis
    by (simp add: unsigned_ucast_eq take_bit_nat_eq_self)
qed

lemma half: "unat (drop_bit 1 (ucast (b :: u16) :: u32)) = unat b div 2"
  by (simp add: unat_drop_bit_eq drop_bit_eq_div unat_div baud_same)

section \<open>Case analysis of the step methods\<close>

lemma sendBreak_cases:
  "sendBreak K now s = Inr (r, s') \<Longrightarrow>
   r = state s' \<and> (error s' = error s \<or> error s' = error s OR ERROR_STATE K)"
  by (auto simp: sendBreak_def Let_def split: if_splits sum.splits)

lemma sendFrame_cases:
  "sendFrame K t1 t2 s = Inr (r, s') \<Longrightarrow>
   r = state s' \<and>
   (error s' = error s \<or> error s' = error s OR ERROR_STATE K \<or>
    error s' = error s OR ERROR_TIMEOUT K)"
  by (auto simp: sendFrame_def Let_def split: if_splits sum.splits)

lemma receiveFrame_cases:
  "receiveFrame K t s = Inr (r, s') \<Longrightarrow>
   r = state s' \<and>
   (error s' = error s \<or> error s' = error s OR ERROR_STATE K \<or>
    error s' = error s OR ERROR_TIMEOUT K \<or>
    error s' = error s OR
      checkFrame K
        (s\<lparr>pSerial := (pSerial s)\<lparr>rx := drop (unat (lenRx s)) (rx (pSerial s)),
               trace := trace (pSerial s) @
                 [ReadBytes (take (unat (lenRx s)) (rx (pSerial s)))]\<rparr>,
            bufRx := take (unat (lenRx s)) (rx (pSerial s)) @
                     drop (unat (lenRx s)) (bufRx s)\<rparr>))"
  by (auto simp: receiveFrame_def Let_def serial_readBytes_def buf_store_def available_ge min_def
      split: if_splits sum.splits)

lemma sendBreak_defined:
  "in_bounds s \<Longrightarrow> \<exists>r s'. sendBreak K now s = Inr (r, s')"
  by (auto simp: sendBreak_def Let_def in_bounds_def buf_index_def)

lemma sendFrame_defined:
  "in_bounds s \<Longrightarrow> \<exists>r s'. sendFrame K t1 t2 s = Inr (r, s')"
  by (simp add: sendFrame_def Let_def in_bounds_def buf_slice_rest)

lemma receiveFrame_defined:
  "in_bounds s \<Longrightarrow> \<exists>r s'. receiveFrame K t s = Inr (r, s')"
  by (simp add: receiveFrame_def Let_def in_bounds_def serial_readBytes_def buf_store_take available_ge)

lemma or_keeps_bits: "bit (e :: error_t) n \<Longrightarrow> bit (e OR m) n"
  by (simp add: bit_or_iff)

lemma or_without_bit:
  "(c :: error_t) AND m = 0 \<Longrightarrow> (e OR c) AND m = e AND m"
  by (simp add: bit.conj_disj_distrib2)

section \<open>The claims\<close>

text \<open>
  C1. A call of \<open>_sendFrame\<close> entered in \<open>STATE_BREAK\<close>, with the frame to send
  inside \<open>bufTx\<close>, leaves the object in \<open>STATE_BODY\<close> exactly when the time since the
  break, \<open>micros() - timeStartBreak\<close>, is strictly greater than \<open>timePerByte * 2\<close>
  (32-bit arithmetic, as the code computes both sides). In that case it returns
  \<open>STATE_BODY\<close>, and all it has done is set the port to the nominal baud rate and then
  write the bytes \<open>bufTx[1..lenTx-1]\<close>.
\<close>

theorem sendFrame_break_to_body:
  assumes "state s = STATE_BREAK"
    and "1 \<le> unat (lenTx s)" and "unat (lenTx s) \<le> length (bufTx s)"
  shows "\<exists>r s'. sendFrame K t1 t2 s = Inr (r, s') \<and>
      (state s' = STATE_BODY \<longleftrightarrow> t1 - timeStartBreak s > timePerByte s * 2) \<and>
      (t1 - timeStartBreak s > timePerByte s * 2 \<longrightarrow>
         r = STATE_BODY \<and> unat (baud (pSerial s')) = unat (baudrate s) \<and>
         s' = s\<lparr>pSerial := (pSerial s)\<lparr>baud := ucast (baudrate s),
                   trace := trace (pSerial s) @
                     [UpdateBaudRate (ucast (baudrate s)),
                      Write (take (unat (lenTx s) - 1) (drop 1 (bufTx s)))]\<rparr>,
                 state := STATE_BODY\<rparr>)"
  using assms
  by (simp add: sendFrame_def Let_def buf_slice_rest twice serial_updateBaudRate_def
      serial_write_def baud_same)

text \<open>The statement at a concrete node.\<close>

theorem sendFrame_break_to_body_witness:
  "state ex_break = STATE_BREAK \<and> 1 \<le> unat (lenTx ex_break) \<and>
   unat (lenTx ex_break) \<le> length (bufTx ex_break) \<and>
   timePerByte ex_break * 2 < 3000 - timeStartBreak ex_break \<and>
   sendFrame ex_base 3000 3000 ex_break =
     Inr (STATE_BODY,
          ex_break\<lparr>pSerial := \<lparr>rx = [], baud = 19200,
                       trace = [UpdateBaudRate 19200, Write [85, 80]]\<rparr>,
                   state := STATE_BODY\<rparr>)"
  using sendFrame_break_to_body [of ex_break ex_base 3000 3000]
  by (auto simp add: ex_break_def ex_node_def)

text \<open>
  C2. A call of \<open>_receiveFrame\<close> entered in \<open>STATE_BODY\<close>, with \<open>lenRx\<close> bytes
  fitting \<open>bufRx\<close>: when the port has at least \<open>lenRx\<close> bytes pending, it takes exactly the
  \<open>lenRx\<close> oldest ones into the start of \<open>bufRx\<close>, ors the result of \<open>_checkFrame\<close> into
  \<open>error\<close>, sets \<open>STATE_DONE\<close> and returns it. When the port has fewer, no byte is read
  and \<open>bufRx\<close> is untouched; the state can then become \<open>STATE_DONE\<close> only by the
  deadline.
\<close>

theorem receiveFrame_body_to_done:
  fixes s :: LIN_Master_HardwareSerial_ESP32
  defines "n \<equiv> unat (lenRx s)"
  defines "s1 \<equiv> s\<lparr>pSerial := (pSerial s)\<lparr>rx := drop n (rx (pSerial s)),
                        trace := trace (pSerial s) @ [ReadBytes (take n (rx (pSerial s)))]\<rparr>,
                     bufRx := take n (rx (pSerial s)) @ drop n (bufRx s)\<rparr>"
  assumes "state s = STATE_BODY" and "unat (lenRx s) \<le> length (bufRx s)"
  shows "(n \<le> length (rx (pSerial s)) \<longrightarrow>
            receiveFrame K t s =
              Inr (STATE_DONE, s1\<lparr>error := error s OR checkFrame K s1, state := STATE_DONE\<rparr>)) \<and>
         (\<not> n \<le> length (rx (pSerial s)) \<longrightarrow>
            (\<exists>r s'. receiveFrame K t s = Inr (r, s') \<and>
                pSerial s' = pSerial s \<and> bufRx s' = bufRx s \<and>
                (state s' = STATE_DONE \<longrightarrow> timeMax s < t - timeStart s)))"
  using assms(3,4) unfolding n_def s1_def
  by (simp add: receiveFrame_def Let_def available_ge serial_readBytes_def buf_store_take)

text \<open>The statement at a concrete node.\<close>

theorem receiveFrame_body_to_done_witness:
  "state ex_body = STATE_BODY \<and> unat (lenRx ex_body) \<le> length (bufRx ex_body) \<and>
   unat (lenRx ex_body) \<le> length (rx (pSerial ex_body)) \<and>
   receiveFrame ex_base 3000 ex_body =
     Inr (STATE_DONE,
          ex_body\<lparr>pSerial := \<lparr>rx = [], baud = 19200, trace = [ReadBytes [0, 85, 80]]\<rparr>,
                  bufRx := [0, 85, 80, 0], state := STATE_DONE\<rparr>)"
  using receiveFrame_body_to_done [of ex_body ex_base 3000]
  by (simp add: ex_body_def ex_node_def ex_base_def)

text \<open>
  C3. Waiting in \<open>STATE_BREAK\<close> (\<open>_sendFrame\<close>, break not over) or in \<open>STATE_BODY\<close>
  (\<open>_receiveFrame\<close>, fewer than \<open>lenRx\<close> bytes pending): when the time since
  \<open>timeStart\<close> exceeds \<open>timeMax\<close>, the call ors \<open>ERROR_TIMEOUT\<close> into \<open>error\<close>, sets
  \<open>STATE_DONE\<close> and returns it, and changes nothing else: no byte is read from the
  port and none is stored.
\<close>

theorem timeout_forces_done:
  "(state s = STATE_BREAK \<and> \<not> timePerByte s * 2 < t1 - timeStartBreak s \<and>
      timeMax s < t2 - timeStart s \<longrightarrow>
      sendFrame K t1 t2 s =
        Inr (STATE_DONE, s\<lparr>error := error s OR ERROR_TIMEOUT K, state := STATE_DONE\<rparr>)) \<and>
   (state s = STATE_BODY \<and> length (rx (pSerial s)) < unat (lenRx s) \<and>
      timeMax s < t - timeStart s \<longrightarrow>
      receiveFrame K t s =
        Inr (STATE_DONE, s\<lparr>error := error s OR ERROR_TIMEOUT K, state := STATE_DONE\<rparr>))"
  by (simp add: sendFrame_def receiveFrame_def Let_def available_ge twice)

text \<open>The statement at a concrete node.\<close>

theorem timeout_forces_done_witness:
  "state ex_break = STATE_BREAK \<and>
   \<not> timePerByte ex_break * 2 < 1200 - timeStartBreak ex_break \<and>
   timeMax ex_break < 20000 - timeStart ex_break \<and>
   sendFrame ex_base 1200 20000 ex_break =
     Inr (STATE_DONE, ex_break\<lparr>error := 4, state := STATE_DONE\<rparr>) \<and>
   state ex_body_short = STATE_BODY \<and>
   length (rx (pSerial ex_body_short)) < unat (lenRx ex_body_short) \<and>
   timeMax ex_body_short < 20000 - timeStart ex_body_short \<and>
   receiveFrame ex_base 20000 ex_body_short =
     Inr (STATE_DONE, ex_body_short\<lparr>error := 4, state := STATE_DONE\<rparr>)"
  using timeout_forces_done [of ex_break 1200 20000 ex_base]
    timeout_forces_done [of ex_body_short 1200 20000 ex_base 20000]
  by (simp add: ex_break_def ex_body_short_def ex_node_def ex_base_def)

text \<open>
  C4. Each of \<open>_sendBreak\<close>, \<open>_sendFrame\<close> and \<open>_receiveFrame\<close>, entered in a state
  other than \<open>STATE_IDLE\<close>, \<open>STATE_BREAK\<close> and \<open>STATE_BODY\<close> respectively, ors
  \<open>ERROR_STATE\<close> into \<open>error\<close>, sets \<open>STATE_DONE\<close> and returns it; the port, the buffers
  and the time stamps stay as they were. In particular so do \<open>_sendFrame\<close> and
  \<open>_receiveFrame\<close> entered in \<open>STATE_IDLE\<close>.
\<close>

theorem wrong_state_aborts:
  "(state s \<noteq> STATE_IDLE \<longrightarrow>
      sendBreak K now s =
        Inr (STATE_DONE, s\<lparr>error := error s OR ERROR_STATE K, state := STATE_DONE\<rparr>)) \<and>
   (state s \<noteq> STATE_BREAK \<longrightarrow>
      sendFrame K t1 t2 s =
        Inr (STATE_DONE, s\<lparr>error := error s OR ERROR_STATE K, state := STATE_DONE\<rparr>)) \<and>
   (state s \<noteq> STATE_BODY \<longrightarrow>
      receiveFrame K t s =
        Inr (STATE_DONE, s\<lparr>error := error s OR ERROR_STATE K, state := STATE_DONE\<rparr>)) \<and>
   (state s = STATE_IDLE \<longrightarrow>
      sendFrame K t1 t2 s =
        Inr (STATE_DONE, s\<lparr>error := error s OR ERROR_STATE K, state := STATE_DONE\<rparr>) \<and>
      receiveFrame K t s =
        Inr (STATE_DONE, s\<lparr>error := error s OR ERROR_STATE K, state := STATE_DONE\<rparr>))"
  by (simp add: sendBreak_def sendFrame_def receiveFrame_def Let_def)

text \<open>The statement at a concrete node.\<close>

theorem wrong_state_aborts_witness:
  "state ex_break \<noteq> STATE_IDLE \<and>
   sendBreak ex_base 1100 ex_break =
     Inr (STATE_DONE, ex_break\<lparr>error := 1, state := STATE_DONE\<rparr>) \<and>
   state ex_node = STATE_IDLE \<and>
   sendFrame ex_base 1200 1300 ex_node =
     Inr (STATE_DONE, ex_node\<lparr>error := 1, state := STATE_DONE\<rparr>) \<and>
   receiveFrame ex_base 1300 ex_node =
     Inr (STATE_DONE, ex_node\<lparr>error := 1, state := STATE_DONE\<rparr>)"
  using wrong_state_aborts [of ex_break ex_base 1100]
    wrong_state_aborts [of ex_node ex_base 1100 1200 1300 1300]
  by (simp add: ex_break_def ex_node_def ex_base_def)

text \<open>
  C5. A call of \<open>_sendBreak\<close> entered in \<open>STATE_IDLE\<close> does, in this order: flush
  the port, read away every pending byte, set the baud rate to \<open>baudrate >> 1\<close> (half
  the nominal rate, rounded down), write the one byte \<open>bufTx[0]\<close>; it records the
  current time in \<open>timeStartBreak\<close>, sets \<open>STATE_BREAK\<close> and returns it.
\<close>

theorem sendBreak_idle:
  assumes "state s = STATE_IDLE" and "bufTx s \<noteq> []"
  shows "sendBreak K now s =
           Inr (STATE_BREAK,
                s\<lparr>pSerial := (pSerial s)\<lparr>rx := [],
                      baud := drop_bit 1 (ucast (baudrate s)),
                      trace := trace (pSerial s) @ [Flush] @ map Read (rx (pSerial s)) @
                        [UpdateBaudRate (drop_bit 1 (ucast (baudrate s))),
                         Write [bufTx s ! 0]]\<rparr>,
                  timeStartBreak := now, state := STATE_BREAK\<rparr>) \<and>
         unat (drop_bit 1 (ucast (baudrate s)) :: u32) = unat (baudrate s) div 2"
proof
  show "sendBreak K now s =
           Inr (STATE_BREAK,
                s\<lparr>pSerial := (pSerial s)\<lparr>rx := [],
                      baud := drop_bit 1 (ucast (baudrate s)),
                      trace := trace (pSerial s) @ [Flush] @ map Read (rx (pSerial s)) @
                        [UpdateBaudRate (drop_bit 1 (ucast (baudrate s))),
                         Write [bufTx s ! 0]]\<rparr>,
                  timeStartBreak := now, state := STATE_BREAK\<rparr>)"
    using assms
    by (simp add: sendBreak_def Let_def buf_index_0 drain_eq serial_flush_def
        serial_updateBaudRate_def serial_write_def)
  show "unat (drop_bit 1 (ucast (baudrate s)) :: u32) = unat (baudrate s) div 2"
    by (rule half)
qed

text \<open>The statement at a concrete node.\<close>

theorem sendBreak_idle_witness:
  "state ex_node = STATE_IDLE \<and> bufTx ex_node \<noteq> [] \<and>
   sendBreak ex_base 1100 ex_node =
     Inr (STATE_BREAK,
          ex_node\<lparr>pSerial := \<lparr>rx = [], baud = 9600,
                      trace = [Flush, Read 7, Read 9, UpdateBaudRate 9600, Write [0]]\<rparr>,
                  timeStartBreak := 1100, state := STATE_BREAK\<rparr>)"
  using sendBreak_idle [of ex_node ex_base 1100]
  by (simp add: ex_node_def)

text \<open>
  C6. In both waiting states the deadline test is the same strict inequality: the
  call times out (ors \<open>ERROR_TIMEOUT\<close>, sets \<open>STATE_DONE\<close>) when
  \<open>micros() - timeStart > timeMax\<close> and otherwise leaves the object as it is. An
  elapsed time equal to \<open>timeMax\<close> is not a timeout, in \<open>_sendFrame\<close> and in
  \<open>_receiveFrame\<close> alike.
\<close>

theorem timeout_strict_inequality:
  "(state s = STATE_BREAK \<and> \<not> timePerByte s * 2 < t1 - timeStartBreak s \<longrightarrow>
      sendFrame K t1 t2 s =
        (if timeMax s < t2 - timeStart s
         then Inr (STATE_DONE, s\<lparr>error := error s OR ERROR_TIMEOUT K, state := STATE_DONE\<rparr>)
         else Inr (STATE_BREAK, s))) \<and>
   (state s = STATE_BODY \<and> length (rx (pSerial s)) < unat (lenRx s) \<longrightarrow>
      receiveFrame K t s =
        (if timeMax s < t - timeStart s
         then Inr (STATE_DONE, s\<lparr>error := error s OR ERROR_TIMEOUT K, state := STATE_DONE\<rparr>)
         else Inr (STATE_BODY, s))) \<and>
   (state s = STATE_BREAK \<and> \<not> timePerByte s * 2 < t1 - timeStartBreak s \<and>
      t2 - timeStart s = timeMax s \<longrightarrow>
      sendFrame K t1 t2 s = Inr (STATE_BREAK, s)) \<and>
   (state s = STATE_BODY \<and> length (rx (pSerial s)) < unat (lenRx s) \<and>
      t - timeStart s = timeMax s \<longrightarrow>
      receiveFrame K t s = Inr (STATE_BODY, s))"
  by (simp add: sendFrame_def receiveFrame_def Let_def available_ge twice)

text \<open>The statement at a concrete node.\<close>

theorem timeout_strict_inequality_witness:
  "state ex_break = STATE_BREAK \<and>
   \<not> timePerByte ex_break * 2 < 1200 - timeStartBreak ex_break \<and>
   11000 - timeStart ex_break = timeMax ex_break \<and>
   sendFrame ex_base 1200 11000 ex_break = Inr (STATE_BREAK, ex_break) \<and>
   sendFrame ex_base 1200 11001 ex_break =
     Inr (STATE_DONE, ex_break\<lparr>error := 4, state := STATE_DONE\<rparr>) \<and>
   state ex_body_short = STATE_BODY \<and>
   length (rx (pSerial ex_body_short)) < unat (lenRx ex_body_short) \<and>
   11000 - timeStart ex_body_short = timeMax ex_body_short \<and>
   receiveFrame ex_base 11000 ex_body_short = Inr (STATE_BODY, ex_body_short) \<and>
   receiveFrame ex_base 11001 ex_body_short =
     Inr (STATE_DONE, ex_body_short\<lparr>error := 4, state := STATE_DONE\<rparr>)"
  using timeout_strict_inequality [of ex_break 1200 ex_base 11000]
    timeout_strict_inequality [of ex_break 1200 ex_base 11001]
    timeout_strict_inequality [of ex_body_short 1200 ex_base 11000 11000]
    timeout_strict_inequality [of ex_body_short 1200 ex_base 11000 11001]
  by (simp add: ex_break_def ex_body_short_def ex_node_def ex_base_def)

text \<open>
  C7. Whatever \<open>_sendBreak\<close>, \<open>_sendFrame\<close> or \<open>_receiveFrame\<close> returns, every bit
  set in \<open>error\<close> before the call is set after it: the new mask is the old one, or
  the old one or-ed with \<open>ERROR_STATE\<close>, with \<open>ERROR_TIMEOUT\<close>, or (in
  \<open>_receiveFrame\<close>) with the result of \<open>_checkFrame\<close>. With the buffers in bounds
  each of the three calls does return.
\<close>

theorem error_bits_accumulate:
  fixes s :: LIN_Master_HardwareSerial_ESP32
  defines "s1 \<equiv> s\<lparr>pSerial := (pSerial s)\<lparr>rx := drop (unat (lenRx s)) (rx (pSerial s)),
                        trace := trace (pSerial s) @
                          [ReadBytes (take (unat (lenRx s)) (rx (pSerial s)))]\<rparr>,
                     bufRx := take (unat (lenRx s)) (rx (pSerial s)) @
                              drop (unat (lenRx s)) (bufRx s)\<rparr>"
  shows "(\<forall>r s'. sendBreak K now s = Inr (r, s') \<longrightarrow>
            (\<forall>n. bit (error s) n \<longrightarrow> bit (error s') n) \<and>
            (error s' = error s \<or> error s' = error s OR ERROR_STATE K)) \<and>
         (\<forall>r s'. sendFrame K t1 t2 s = Inr (r, s') \<longrightarrow>
            (\<forall>n. bit (error s) n \<longrightarrow> bit (error s') n) \<and>
            (error s' = error s \<or> error s' = error s OR ERROR_STATE K \<or>
             error s' = error s OR ERROR_TIMEOUT K)) \<and>
         (\<forall>r s'. receiveFrame K t s = Inr (r, s') \<longrightarrow>
            (\<forall>n. bit (error s) n \<longrightarrow> bit (error s') n) \<and>
            (error s' = error s \<or> error s' = error s OR ERROR_STATE K \<or>
             error s' = error s OR ERROR_TIMEOUT K \<or>
             error s' = error s OR checkFrame K s1)) \<and>
         (in_bounds s \<longrightarrow>
            (\<exists>r s'. sendBreak K now s = Inr (r, s')) \<and>
            (\<exists>r s'. sendFrame K t1 t2 s = Inr (r, s')) \<and>
            (\<exists>r s'. receiveFrame K t s = Inr (r, s')))"
proof (intro conjI allI impI)
  fix r s'
  assume "sendBreak K now s = Inr (r, s')"
  then show e: "error s' = error s \<or> error s' = error s OR ERROR_STATE K"
    by (simp add: sendBreak_cases)
  fix n
  assume "bit (error s) n"
  with e show "bit (error s') n"
    by (auto simp: or_keeps_bits)
next
  fix r s'
  assume "sendFrame K t1 t2 s = Inr (r, s')"
  then show e: "error s' = error s \<or> error s' = error s OR ERROR_STATE K \<or>
      error s' = error s OR ERROR_TIMEOUT K"
    by (simp add: sendFrame_cases)
  fix n
  assume "bit (error s) n"
  with e show "bit (error s') n"
    by (auto simp: or_keeps_bits)
next
  fix r s'
  assume "receiveFrame K t s = Inr (r, s')"
  then show e: "error s' = error s \<or> error s' = error s OR ERROR_STATE K \<or>
      error s' = error s OR ERROR_TIMEOUT K \<or> error s' = error s OR checkFrame K s1"
    unfolding s1_def by (rule receiveFrame_cases [THEN conjunct2])
  fix n
  assume "bit (error s) n"
  with e show "bit (error s') n"
    by (auto simp: or_keeps_bits)
next
  assume "in_bounds s"
  then show "\<exists>r s'. sendBreak K now s = Inr (r, s')"
    and "\<exists>r s'. sendFrame K t1 t2 s = Inr (r, s')"
    and "\<exists>r s'. receiveFrame K t s = Inr (r, s')"
    by (rule sendBreak_defined sendFrame_defined receiveFrame_defined)+
qed

text \<open>The statement at a concrete node.\<close>

theorem error_bits_accumulate_witness:
  "in_bounds (ex_body_short\<lparr>error := 8\<rparr>) \<and>
   bit (error (ex_body_short\<lparr>error := 8\<rparr>)) 3 \<and>
   (\<exists>r s'. receiveFrame ex_base 20000 (ex_body_short\<lparr>error := 8\<rparr>) = Inr (r, s') \<and>
      bit (error s') 3 \<and> error s' = 12)"
proof -
  let ?s = "ex_body_short\<lparr>error := 8\<rparr>"
  let ?s' = "?s\<lparr>error := 12, state := STATE_DONE\<rparr>"
  have run: "receiveFrame ex_base 20000 ?s = Inr (STATE_DONE, ?s')"
    by (simp add: receiveFrame_def serial_available_def ex_body_short_def ex_node_def
        ex_base_def)
  have inb: "in_bounds ?s"
    by (simp add: in_bounds_def ex_body_short_def ex_node_def)
  have before: "bit (error ?s) 3"
    by simp
  from error_bits_accumulate [of ex_base 1100 ?s 1200 20000 20000] run before
  have "bit (error ?s') 3"
    by blast
  with run inb before show ?thesis
    by simp
qed

text \<open>
  C8. A call of \<open>_sendFrame\<close> in \<open>STATE_BREAK\<close> with neither the break over nor the
  deadline passed, and a call of \<open>_receiveFrame\<close> in \<open>STATE_BODY\<close> with fewer than
  \<open>lenRx\<close> bytes pending and the deadline not passed, return the state they were
  entered in and leave the whole object, the port included, unchanged.
\<close>

theorem waiting_is_effect_free:
  "(state s = STATE_BREAK \<and> \<not> timePerByte s * 2 < t1 - timeStartBreak s \<and>
      \<not> timeMax s < t2 - timeStart s \<longrightarrow>
      sendFrame K t1 t2 s = Inr (STATE_BREAK, s)) \<and>
   (state s = STATE_BODY \<and> length (rx (pSerial s)) < unat (lenRx s) \<and>
      \<not> timeMax s < t - timeStart s \<longrightarrow>
      receiveFrame K t s = Inr (STATE_BODY, s))"
  by (simp add: sendFrame_def receiveFrame_def Let_def available_ge twice)

text \<open>The statement at a concrete node.\<close>

theorem waiting_is_effect_free_witness:
  "state ex_break = STATE_BREAK \<and>
   \<not> timePerByte ex_break * 2 < 1200 - timeStartBreak ex_break \<and>
   \<not> timeMax ex_break < 1300 - timeStart ex_break \<and>
   sendFrame ex_base 1200 1300 ex_break = Inr (STATE_BREAK, ex_break) \<and>
   state ex_body_short = STATE_BODY \<and>
   length (rx (pSerial ex_body_short)) < unat (lenRx ex_body_short) \<and>
   \<not> timeMax ex_body_short < 1300 - timeStart ex_body_short \<and>
   receiveFrame ex_base 1300 ex_body_short = Inr (STATE_BODY, ex_body_short)"
  using waiting_is_effect_free [of ex_break 1200 1300 ex_base]
    waiting_is_effect_free [of ex_body_short 1200 1300 ex_base 1300]
  by (simp add: ex_break_def ex_body_short_def ex_node_def)

text \<open>
  C9. The value each of the three methods returns is the \<open>state\<close> field of the
  object as the call leaves it, on every path. With the buffers in bounds each of
  the three calls does return.
\<close>

theorem returned_state_is_stored_state:
  "(\<forall>r s'. sendBreak K now s = Inr (r, s') \<longrightarrow> r = state s') \<and>
   (\<forall>r s'. sendFrame K t1 t2 s = Inr (r, s') \<longrightarrow> r = state s') \<and>
   (\<forall>r s'. receiveFrame K t s = Inr (r, s') \<longrightarrow> r = state s') \<and>
   (in_bounds s \<longrightarrow>
      (\<exists>r s'. sendBreak K now s = Inr (r, s')) \<and>
      (\<exists>r s'. sendFrame K t1 t2 s = Inr (r, s')) \<and>
      (\<exists>r s'. receiveFrame K t s = Inr (r, s')))"
  by (auto dest: sendBreak_cases sendFrame_cases receiveFrame_cases
      intro: sendBreak_defined sendFrame_defined receiveFrame_defined)

text \<open>The statement at a concrete node.\<close>

theorem returned_state_is_stored_state_witness:
  "in_bounds ex_node \<and>
   (\<exists>r s'. sendBreak ex_base 1100 ex_node = Inr (r, s') \<and> r = state s') \<and>
   (\<exists>r s'. sendFrame ex_base 1200 1300 ex_node = Inr (r, s') \<and> r = state s') \<and>
   (\<exists>r s'. receiveFrame ex_base 1300 ex_node = Inr (r, s') \<and> r = state s')"
proof -
  have inb: "in_bounds ex_node"
    by (simp add: in_bounds_def ex_node_def)
  with returned_state_is_stored_state [of ex_base 1100 ex_node 1200 1300 1300]
  show ?thesis
    by blast
qed

text \<open>
  C10. Progress comes before the deadline. A call of \<open>_sendFrame\<close> that finds the
  break over goes to \<open>STATE_BODY\<close> with \<open>error\<close> unchanged, and a call of
  \<open>_receiveFrame\<close> that finds \<open>lenRx\<close> bytes pending goes to \<open>STATE_DONE\<close> with
  \<open>error\<close> or-ed with the result of \<open>_checkFrame\<close> only, so the \<open>ERROR_TIMEOUT\<close> bit is
  as before unless \<open>_checkFrame\<close> itself reports it. Neither depends on the clock
  reading compared with the deadline, \<open>timeStart\<close> or \<open>timeMax\<close>: the statement holds
  for all of them.
\<close>

theorem progress_before_timeout:
  fixes s :: LIN_Master_HardwareSerial_ESP32
  defines "s1 \<equiv> s\<lparr>pSerial := (pSerial s)\<lparr>rx := drop (unat (lenRx s)) (rx (pSerial s)),
                        trace := trace (pSerial s) @
                          [ReadBytes (take (unat (lenRx s)) (rx (pSerial s)))]\<rparr>,
                     bufRx := take (unat (lenRx s)) (rx (pSerial s)) @
                              drop (unat (lenRx s)) (bufRx s)\<rparr>"
  shows "(state s = STATE_BREAK \<and> timePerByte s * 2 < t1 - timeStartBreak s \<and>
            1 \<le> unat (lenTx s) \<and> unat (lenTx s) \<le> length (bufTx s) \<longrightarrow>
            (\<exists>s'. sendFrame K t1 t2 s = Inr (STATE_BODY, s') \<and>
                state s' = STATE_BODY \<and> error s' = error s)) \<and>
         (state s = STATE_BODY \<and> unat (lenRx s) \<le> length (rx (pSerial s)) \<and>
            unat (lenRx s) \<le> length (bufRx s) \<longrightarrow>
            (\<exists>s'. receiveFrame K t s = Inr (STATE_DONE, s') \<and>
                state s' = STATE_DONE \<and> error s' = error s OR checkFrame K s1 \<and>
                (checkFrame K s1 AND ERROR_TIMEOUT K = 0 \<longrightarrow>
                   error s' AND ERROR_TIMEOUT K = error s AND ERROR_TIMEOUT K)))"
  unfolding s1_def
  by (simp add: sendFrame_def receiveFrame_def Let_def twice buf_slice_rest available_ge
      serial_readBytes_def buf_store_take serial_updateBaudRate_def serial_write_def
      or_without_bit)

text \<open>The statement at a concrete node.\<close>

theorem progress_before_timeout_witness:
  "state ex_break = STATE_BREAK \<and>
   timePerByte ex_break * 2 < 20000 - timeStartBreak ex_break \<and>
   1 \<le> unat (lenTx ex_break) \<and> unat (lenTx ex_break) \<le> length (bufTx ex_break) \<and>
   timeMax ex_break < 20000 - timeStart ex_break \<and>
   (\<exists>s'. sendFrame ex_base 20000 20000 ex_break = Inr (STATE_BODY, s') \<and> error s' = 0) \<and>
   state ex_body = STATE_BODY \<and>
   unat (lenRx ex_body) \<le> length (rx (pSerial ex_body)) \<and>
   unat (lenRx ex_body) \<le> length (bufRx ex_body) \<and>
   timeMax ex_body < 20000 - timeStart ex_body \<and>
   (\<exists>s'. receiveFrame ex_base 20000 ex_body = Inr (STATE_DONE, s') \<and> error s' = 0)"
proof -
  have pre1: "state ex_break = STATE_BREAK \<and>
      timePerByte ex_break * 2 < 20000 - timeStartBreak ex_break \<and>
      1 \<le> unat (lenTx ex_break) \<and> unat (lenTx ex_break) \<le> length (bufTx ex_break)"
    by (simp add: ex_break_def ex_node_def)
  have late1: "timeMax ex_break < 20000 - timeStart ex_break"
    by (simp add: ex_break_def ex_node_def)
  have pre2: "state ex_body = STATE_BODY \<and>
      unat (lenRx ex_body) \<le> length (rx (pSerial ex_body)) \<and>
      unat (lenRx ex_body) \<le> length (bufRx ex_body)"
    by (simp add: ex_body_def ex_node_def)
  have late2: "timeMax ex_body < 20000 - timeStart ex_body"
    by (simp add: ex_body_def ex_node_def)
  from progress_before_timeout [of ex_break 20000 ex_base 20000] pre1
  obtain s' where "sendFrame ex_base 20000 20000 ex_break = Inr (STATE_BODY, s')"
    and "error s' = error ex_break"
    by blast
  then have run1: "\<exists>s'. sendFrame ex_base 20000 20000 ex_break = Inr (STATE_BODY, s') \<and>
      error s' = 0"
    by (auto simp add: ex_break_def ex_node_def)
  have run2: "\<exists>s'. receiveFrame ex_base 20000 ex_body = Inr (STATE_DONE, s') \<and> error s' = 0"
    by (simp add: receiveFrame_def serial_available_def serial_readBytes_def buf_store_def
        ex_body_def ex_node_def ex_base_def)
  from pre1 late1 run1 pre2 late2 run2 show ?thesis
    by simp
qed

end
